theory Spec2Isabelle
  imports Main "HOL-Library.Word"
begin

section \<open>JavaScript values used by the CRUD pages\<close>

text \<open>
  A JavaScript string is a sequence of 16-bit code units. The text a user types into a form
  field is modelled that way, because \<^verbatim>\<open>String.prototype.trim\<close> is defined on
  code units. Messages and names that the program itself builds from ASCII literals
  (\<^verbatim>\<open>entityName\<close>, error messages) are HOL strings.
\<close>

type_synonym js_string = "16 word list"

definition js :: "string \<Rightarrow> js_string" where
  "js s = map (\<lambda>c. of_char c) s"

text \<open>
  The code units that \<^verbatim>\<open>trim\<close> strips: ECMAScript's WhiteSpace (TAB, VT, FF, ZWNBSP and
  the Unicode space separators) and LineTerminator (LF, CR, LS, PS).
\<close>

definition isWhiteSpace :: "16 word \<Rightarrow> bool" where
  "isWhiteSpace c = (c \<in> set
     [0x0009, 0x000B, 0x000C, 0xFEFF,
      0x0020, 0x00A0, 0x1680,
      0x2000, 0x2001, 0x2002, 0x2003, 0x2004, 0x2005, 0x2006, 0x2007, 0x2008, 0x2009, 0x200A,
      0x202F, 0x205F, 0x3000,
      0x000A, 0x000D, 0x2028, 0x2029])"

definition trim :: "js_string \<Rightarrow> js_string" where
  "trim s = rev (dropWhile isWhiteSpace (rev (dropWhile isWhiteSpace s)))"

text \<open>\<^verbatim>\<open>!s\<close> on a string: the empty string is the only falsy one.\<close>

definition falsy_string :: "js_string \<Rightarrow> bool" where
  "falsy_string s = (s = [])"

text \<open>
  Identifiers are \<^verbatim>\<open>id?: number\<close>. The data model makes them integers, so a present
  identifier is an \<open>int\<close> and an absent one (\<^verbatim>\<open>undefined\<close>) is \<open>None\<close>.
  \<open>truthy\<close> is JavaScript's truthiness on such a value (\<^verbatim>\<open>undefined\<close> and \<open>0\<close> are
  falsy); \<open>or_else a b\<close> is \<^verbatim>\<open>a || b\<close>.

  A JavaScript number is an IEEE-754 double with a 53-bit significand. Every integer of
  magnitude up to \<open>2^53 = 9007199254740992\<close> is a double; from there on the doubles are
  the multiples of 2 up to \<open>2^54\<close>, of 4 up to \<open>2^55\<close>, and so on: \<open>ulp n\<close> is the
  distance between neighbouring doubles at magnitude \<open>n\<close>. Comparisons and
  \<^verbatim>\<open>Math.max\<close> are exact on doubles. Addition is not: \<^verbatim>\<open>a + b\<close> is the exact sum
  rounded to the nearest double, a tie going to the neighbour with the even significand.
  The sum of two finite integer-valued doubles that the handlers form, \<^verbatim>\<open>maxId + 1\<close>,
  never overflows.
\<close>

function ulp :: "nat \<Rightarrow> nat" where
  "ulp n = (if n < 9007199254740992 then 1 else 2 * ulp (n div 2))"
  by pat_completeness auto
termination
  by (relation "measure (\<lambda>n. n)") simp_all

declare ulp.simps [simp del]

text \<open>
  \<open>round_to_multiple q x\<close> is the multiple of \<open>q\<close> nearest to \<open>x\<close>, the even multiple
  when \<open>x\<close> lies halfway between two; \<open>js_add\<close> is \<^verbatim>\<open>+\<close> on integer-valued numbers.
\<close>

definition round_to_multiple :: "int \<Rightarrow> int \<Rightarrow> int" where
  "round_to_multiple q x =
     (let lo = (x div q) * q; r = x mod q
      in if 2 * r < q then lo
         else if q < 2 * r then lo + q
         else if even (x div q) then lo else lo + q)"

definition round_double :: "int \<Rightarrow> int" where
  "round_double x = round_to_multiple (int (ulp (nat \<bar>x\<bar>))) x"

definition js_add :: "int \<Rightarrow> int \<Rightarrow> int" where
  "js_add a b = round_double (a + b)"

definition truthy :: "int option \<Rightarrow> bool" where
  "truthy v = (case v of None \<Rightarrow> False | Some n \<Rightarrow> n \<noteq> 0)"

definition or_else :: "int option \<Rightarrow> int \<Rightarrow> int" where
  "or_else v d = (case v of None \<Rightarrow> d | Some n \<Rightarrow> if n \<noteq> 0 then n else d)"

text \<open>
  \<^verbatim>\<open>Math.max(...xs)\<close>. The create handler calls it under the guard
  \<^verbatim>\<open>items.length > 0\<close> only; with no argument JavaScript returns \<open>-Infinity\<close>, which is
  not an integer and is never reached.
\<close>

definition Math_max :: "int list \<Rightarrow> int" where
  "Math_max xs = fold max (tl xs) (hd xs)"

text \<open>The decimal rendering of a number inside a template literal.\<close>

fun string_of_nat :: "nat \<Rightarrow> string" where
  "string_of_nat n =
     (if n < 10 then [''0123456789'' ! n]
      else string_of_nat (n div 10) @ [''0123456789'' ! (n mod 10)])"

section \<open>Entities\<close>

text \<open>
  \<^verbatim>\<open>interface Entity { id?: number }\<close>; a type \<^verbatim>\<open>T extends Entity\<close> is an
  extension of the record, \<open>'a entity_scheme\<close>.
\<close>

record entity =
  id_opt :: "int option"

record post = entity +
  postId :: int
  title :: js_string
  body :: js_string

record user = entity +
  name :: js_string
  email :: js_string

section \<open>The network and the page state\<close>

text \<open>
  What an \<^verbatim>\<open>await fetch(...)\<close> can give: the promise rejects with a thrown value, or
  resolves to a response with a status and a body whose \<^verbatim>\<open>json()\<close> either throws or
  yields the parsed value. \<^verbatim>\<open>err instanceof Error\<close> tells the two kinds of thrown
  value apart.
\<close>

datatype thrown = Error (message: string) | NonError

datatype 'b response = Response (status: nat) (json: "thrown + 'b")

datatype 'b fetch_result = Rejected thrown | Resolved "'b response"

text \<open>\<^verbatim>\<open>response.ok\<close> is true for the statuses 200 to 299.\<close>

definition ok :: "'b response \<Rightarrow> bool" where
  "ok r = (200 \<le> status r \<and> status r \<le> 299)"

text \<open>
  The four requests the handlers issue. \<open>PUT u i b\<close> and \<open>DELETE u i\<close> stand for the URL
  \<^verbatim>\<open>`${u}/${i}`\<close>.
\<close>

datatype 'e request =
    GET string
  | POST string 'e
  | PUT string int 'e
  | DELETE string int

text \<open>
  The page's four \<^verbatim>\<open>useState\<close> cells make up what the page shows. The world of a
  handler is these cells together with what the handler does to the outside: the requests
  issued so far, the page as it was shown while each of these requests was in flight (an
  \<^verbatim>\<open>await\<close> suspends the handler, and the state set up to there is rendered), and the
  lines written by \<^verbatim>\<open>console.error\<close>.
\<close>

record 'e page =
  item_list :: "'e list"
  loading :: bool
  error :: "string option"
  formData :: 'e

record 'e world = "'e page" +
  requests :: "'e request list"
  rendered :: "'e page list"
  console :: "(string \<times> thrown) list"

definition shown :: "'e world \<Rightarrow> 'e page" where
  "shown w =
     \<lparr>item_list = item_list w, loading = loading w, error = error w, formData = formData w\<rparr>"

text \<open>The setters that \<^verbatim>\<open>useState\<close> returns for the four cells.\<close>

definition set_items :: "'e list \<Rightarrow> 'e world \<Rightarrow> 'e world" where
  "set_items v w = w\<lparr>item_list := v\<rparr>"

definition set_loading :: "bool \<Rightarrow> 'e world \<Rightarrow> 'e world" where
  "set_loading v w = w\<lparr>loading := v\<rparr>"

definition set_error :: "string option \<Rightarrow> 'e world \<Rightarrow> 'e world" where
  "set_error v w = w\<lparr>error := v\<rparr>"

definition set_formData :: "'e \<Rightarrow> 'e world \<Rightarrow> 'e world" where
  "set_formData v w = w\<lparr>formData := v\<rparr>"

definition console_error :: "string \<Rightarrow> thrown \<Rightarrow> 'e world \<Rightarrow> 'e world" where
  "console_error msg err w = w\<lparr>console := console w @ [(msg, err)]\<rparr>"

text \<open>
  \<^verbatim>\<open>await fetch(...)\<close>: the request is recorded, with the page as it is shown at that
  moment, and the remote side, \<open>net\<close>, answers it.
\<close>

definition fetch ::
  "('e request \<Rightarrow> 'b fetch_result) \<Rightarrow> 'e request \<Rightarrow> 'e world \<Rightarrow> 'b fetch_result \<times> 'e world" where
  "fetch net req w =
     (net req, w\<lparr>requests := requests w @ [req], rendered := rendered w @ [shown w]\<rparr>)"

text \<open>
  The lines every handler runs on the outcome of its \<^verbatim>\<open>await fetch\<close>:
  \<^verbatim>\<open>if (!response.ok) throw new Error(`HTTP error! status: ${response.status}`)\<close>, and,
  in all but the delete handler, \<^verbatim>\<open>await response.json()\<close>. \<open>Inl\<close> is the value
  that reaches the \<^verbatim>\<open>catch\<close> block.
\<close>

definition response_ok :: "'b fetch_result \<Rightarrow> thrown + 'b response" where
  "response_ok result =
     (case result of
        Rejected err \<Rightarrow> Inl err
      | Resolved response \<Rightarrow>
          if \<not> ok response
          then Inl (Error (''HTTP error! status: '' @ string_of_nat (status response)))
          else Inr response)"

definition response_json :: "'b fetch_result \<Rightarrow> thrown + 'b" where
  "response_json result =
     (case response_ok result of
        Inl err \<Rightarrow> Inl err
      | Inr response \<Rightarrow> json response)"

text \<open>
  The \<^verbatim>\<open>catch\<close> block shared by the four handlers, with the verb of its two
  messages as a parameter; \<open>caught_message\<close> is the conditional expression in it:
  \<^verbatim>\<open>setError(err instanceof Error ? err.message : `Failed to ${verb} ${entityName}`);
  console.error(`Error ${verb}ing ${entityName}:`, err)\<close>.
\<close>

definition caught_message :: "thrown \<Rightarrow> string \<Rightarrow> string" where
  "caught_message err fallback = (case err of Error m \<Rightarrow> m | NonError \<Rightarrow> fallback)"

definition catch_block ::
  "(string option \<Rightarrow> 'e world \<Rightarrow> 'e world) \<Rightarrow> string \<Rightarrow> string \<Rightarrow> string \<Rightarrow> thrown \<Rightarrow>
   'e world \<Rightarrow> 'e world" where
  "catch_block setError failed_to doing entityName err w =
     (let w = setError (Some (caught_message err (''Failed to '' @ failed_to @ '' '' @ entityName))) w
      in console_error (''Error '' @ doing @ '' '' @ entityName @ '':'') err w)"

section \<open>The action factory\<close>

text \<open>\<^verbatim>\<open>createFetchHandler\<close>.\<close>

definition createFetchHandler ::
  "string \<Rightarrow> ('e list \<Rightarrow> 'e world \<Rightarrow> 'e world) \<Rightarrow> (bool \<Rightarrow> 'e world \<Rightarrow> 'e world) \<Rightarrow>
   (string option \<Rightarrow> 'e world \<Rightarrow> 'e world) \<Rightarrow> string \<Rightarrow>
   ('e request \<Rightarrow> 'e list fetch_result) \<Rightarrow> 'e world \<Rightarrow> 'e world" where
  "createFetchHandler baseUrl setItems setLoading setError entityName net w =
     (let w = setLoading True w;
          w = setError None w;
          (result, w) = fetch net (GET baseUrl) w;
          w = (case response_json result of
                 Inl err \<Rightarrow> catch_block setError ''fetch'' ''fetching'' entityName err w
               | Inr data \<Rightarrow> setItems data w)
      in setLoading False w)"

text \<open>\<^verbatim>\<open>createCreateHandler\<close>; \<open>items\<close> is the list the handler was created with.\<close>

definition createCreateHandler ::
  "string \<Rightarrow> ('a entity_scheme list \<Rightarrow> 'a entity_scheme world \<Rightarrow> 'a entity_scheme world) \<Rightarrow>
   (string option \<Rightarrow> 'a entity_scheme world \<Rightarrow> 'a entity_scheme world) \<Rightarrow>
   ('a entity_scheme \<Rightarrow> 'a entity_scheme world \<Rightarrow> 'a entity_scheme world) \<Rightarrow>
   'a entity_scheme list \<Rightarrow> 'a entity_scheme \<Rightarrow> string \<Rightarrow>
   ('a entity_scheme request \<Rightarrow> 'a entity_scheme fetch_result) \<Rightarrow>
   'a entity_scheme \<Rightarrow> 'a entity_scheme world \<Rightarrow> 'a entity_scheme world" where
  "createCreateHandler baseUrl setItems setError setFormData items clearFormData entityName net
       itemData w =
     (let w = setError None w;
          (result, w) = fetch net (POST baseUrl itemData) w
      in case response_json result of
           Inl err \<Rightarrow> catch_block setError ''create'' ''creating'' entityName err w
         | Inr newItem \<Rightarrow>
             (let maxId = (if length items > 0
                           then Math_max (map (\<lambda>item. or_else (id_opt item) 0) items)
                           else 0);
                  savedItem = newItem\<lparr>id_opt := Some (js_add maxId 1)\<rparr>;
                  updatedItems = items @ [savedItem];
                  w = setItems updatedItems w
              in setFormData clearFormData w))"

text \<open>
  \<^verbatim>\<open>createUpdateHandler\<close>. The \<^verbatim>\<open>throw\<close> for a falsy identifier comes before the
  \<^verbatim>\<open>fetch\<close>, inside the same \<^verbatim>\<open>try\<close>.
\<close>

definition createUpdateHandler ::
  "string \<Rightarrow> ('a entity_scheme list \<Rightarrow> 'a entity_scheme world \<Rightarrow> 'a entity_scheme world) \<Rightarrow>
   (string option \<Rightarrow> 'a entity_scheme world \<Rightarrow> 'a entity_scheme world) \<Rightarrow>
   ('a entity_scheme \<Rightarrow> 'a entity_scheme world \<Rightarrow> 'a entity_scheme world) \<Rightarrow>
   'a entity_scheme list \<Rightarrow> 'a entity_scheme \<Rightarrow> string \<Rightarrow>
   ('a entity_scheme request \<Rightarrow> 'a entity_scheme fetch_result) \<Rightarrow>
   'a entity_scheme \<Rightarrow> 'a entity_scheme world \<Rightarrow> 'a entity_scheme world" where
  "createUpdateHandler baseUrl setItems setError setFormData items clearFormData entityName net
       itemData w =
     (let w = setError None w
      in if \<not> truthy (id_opt itemData)
         then catch_block setError ''update'' ''updating'' entityName
                (Error (''Cannot update '' @ entityName @ '' without an ID'')) w
         else
           (let (result, w) = fetch net (PUT baseUrl (the (id_opt itemData)) itemData) w
            in case response_json result of
                 Inl err \<Rightarrow> catch_block setError ''update'' ''updating'' entityName err w
               | Inr savedItem \<Rightarrow>
                   (let updatedItems =
                          map (\<lambda>item. if id_opt item = id_opt itemData then savedItem else item)
                            items;
                        w = setItems updatedItems w
                    in setFormData clearFormData w)))"

text \<open>\<^verbatim>\<open>createDeleteHandler\<close>; the response body is not read.\<close>

definition createDeleteHandler ::
  "string \<Rightarrow> ('a entity_scheme list \<Rightarrow> 'a entity_scheme world \<Rightarrow> 'a entity_scheme world) \<Rightarrow>
   (string option \<Rightarrow> 'a entity_scheme world \<Rightarrow> 'a entity_scheme world) \<Rightarrow>
   'a entity_scheme list \<Rightarrow> string \<Rightarrow>
   ('a entity_scheme request \<Rightarrow> 'b fetch_result) \<Rightarrow>
   int \<Rightarrow> 'a entity_scheme world \<Rightarrow> 'a entity_scheme world" where
  "createDeleteHandler baseUrl setItems setError items entityName net ident w =
     (let w = setError None w;
          (result, w) = fetch net (DELETE baseUrl ident) w
      in case response_ok result of
           Inl err \<Rightarrow> catch_block setError ''delete'' ''deleting'' entityName err w
         | Inr response \<Rightarrow>
             (let updatedItems = filter (\<lambda>item. id_opt item \<noteq> Some ident) items
              in setItems updatedItems w))"

section \<open>The pages' submit handlers\<close>

text \<open>
  \<^verbatim>\<open>handleSubmit\<close> of the posts page. It reads the form draft from the page state;
  the state setter and the two operations it closes over are parameters, so that what it
  does with each of them can be read off.
\<close>

definition handleSubmit_posts ::
  "(string option \<Rightarrow> 'a post_scheme world \<Rightarrow> 'a post_scheme world) \<Rightarrow>
   ('a post_scheme \<Rightarrow> 'a post_scheme world \<Rightarrow> 'a post_scheme world) \<Rightarrow>
   ('a post_scheme \<Rightarrow> 'a post_scheme world \<Rightarrow> 'a post_scheme world) \<Rightarrow>
   'a post_scheme world \<Rightarrow> 'a post_scheme world" where
  "handleSubmit_posts setError handleUpdatePost handleCreatePost w =
     (if falsy_string (trim (title (formData w))) \<or> falsy_string (trim (body (formData w)))
      then setError (Some ''Please fill in all fields'') w
      else if truthy (id_opt (formData w))
           then handleUpdatePost (formData w) w
           else handleCreatePost (formData w) w)"

text \<open>
  \<^verbatim>\<open>handleSubmit\<close> of the users page. Its setter and operations come from the hook
  \<^verbatim>\<open>useCrudState\<close>, whose source is not part of the repository snapshot; they are
  parameters here as well.
\<close>

definition handleSubmit_users ::
  "(string option \<Rightarrow> 'a user_scheme world \<Rightarrow> 'a user_scheme world) \<Rightarrow>
   ('a user_scheme \<Rightarrow> 'a user_scheme world \<Rightarrow> 'a user_scheme world) \<Rightarrow>
   ('a user_scheme \<Rightarrow> 'a user_scheme world \<Rightarrow> 'a user_scheme world) \<Rightarrow>
   'a user_scheme world \<Rightarrow> 'a user_scheme world" where
  "handleSubmit_users setError handleUpdate handleCreate w =
     (if falsy_string (trim (name (formData w))) \<or> falsy_string (trim (email (formData w)))
      then setError (Some ''Please fill in all fields'') w
      else if truthy (id_opt (formData w))
           then handleUpdate (formData w) w
           else handleCreate (formData w) w)"

text \<open>The posts page: its base URL, its empty form and its four operations.\<close>

definition baseUrl_posts :: string where
  "baseUrl_posts = ''https://jsonplaceholder.typicode.com/posts''"

definition empty_post :: post where
  "empty_post = \<lparr>id_opt = None, postId = 0, title = [], body = []\<rparr>"

definition handleFetchPosts :: "(post request \<Rightarrow> post list fetch_result) \<Rightarrow> post world \<Rightarrow> post world" where
  "handleFetchPosts = createFetchHandler baseUrl_posts set_items set_loading set_error ''posts''"

definition handleCreatePost ::
  "(post request \<Rightarrow> post fetch_result) \<Rightarrow> post \<Rightarrow> post world \<Rightarrow> post world" where
  "handleCreatePost net itemData w =
     createCreateHandler baseUrl_posts set_items set_error set_formData (item_list w) empty_post
       ''post'' net itemData w"

definition handleUpdatePost ::
  "(post request \<Rightarrow> post fetch_result) \<Rightarrow> post \<Rightarrow> post world \<Rightarrow> post world" where
  "handleUpdatePost net itemData w =
     createUpdateHandler baseUrl_posts set_items set_error set_formData (item_list w) empty_post
       ''post'' net itemData w"

definition Posts_handleSubmit ::
  "(post request \<Rightarrow> post fetch_result) \<Rightarrow> post world \<Rightarrow> post world" where
  "Posts_handleSubmit net w =
     handleSubmit_posts set_error (handleUpdatePost net) (handleCreatePost net) w"

section \<open>Vocabulary of the properties\<close>

text \<open>The identifiers that the elements of a list carry, in list order.\<close>

definition identifiers :: "'a entity_scheme list \<Rightarrow> int list" where
  "identifiers items = List.map_filter id_opt items"

definition unique_identifiers :: "'a entity_scheme list \<Rightarrow> bool" where
  "unique_identifiers items = distinct (identifiers items)"

text \<open>An element's identifier, an element without one counting as 0.\<close>

definition identifier_or_zero :: "'a entity_scheme \<Rightarrow> int" where
  "identifier_or_zero item = (case id_opt item of None \<Rightarrow> 0 | Some n \<Rightarrow> n)"

text \<open>
  The largest identifier of a list, an element without identifier counting as 0 and the
  empty list giving 0; and the integers that \<^verbatim>\<open>Number.isSafeInteger\<close> accepts, those of
  magnitude below \<open>2^53\<close>.
\<close>

definition largest_identifier :: "'a entity_scheme list \<Rightarrow> int" where
  "largest_identifier items =
     (if items = [] then 0 else Max (set (map identifier_or_zero items)))"

definition safe_integer :: "int \<Rightarrow> bool" where
  "safe_integer n = (\<bar>n\<bar> < 9007199254740992)"

text \<open>
  The new identifier in the words of the specification, to be compared with what
  \<open>createCreateHandler\<close> computes: (max existing identifier, or zero if list empty) + 1.
\<close>

definition spec_new_identifier :: "'a entity_scheme list \<Rightarrow> int" where
  "spec_new_identifier items = (if items = [] then 0 else Max (set (identifiers items))) + 1"

text \<open>A text field that is empty or consists of white space only.\<close>

definition whitespace_only :: "js_string \<Rightarrow> bool" where
  "whitespace_only s = list_all isWhiteSpace s"

text \<open>The number of positions at which two lists differ.\<close>

definition replaced_count :: "'a list \<Rightarrow> 'a list \<Rightarrow> nat" where
  "replaced_count old new = length (filter (\<lambda>(a, b). a \<noteq> b) (zip old new))"

text \<open>
  A page at rest showing a list and a form draft, and a remote side that gives one and the
  same response to every request: the concrete inputs of the examples below.
\<close>

definition idle :: "'e list \<Rightarrow> 'e \<Rightarrow> 'e world" where
  "idle items draft =
     \<lparr>item_list = items, loading = False, error = None, formData = draft,
      requests = [], rendered = [], console = []\<rparr>"

definition answers :: "'b response \<Rightarrow> 'e request \<Rightarrow> 'b fetch_result" where
  "answers r req = Resolved r"

definition empty_user :: user where
  "empty_user = \<lparr>id_opt = None, name = [], email = []\<rparr>"

definition mk_user :: "int option \<Rightarrow> string \<Rightarrow> user" where
  "mk_user i n = \<lparr>id_opt = i, name = js n, email = js ''u@example.com''\<rparr>"

definition mk_post :: "int option \<Rightarrow> string \<Rightarrow> string \<Rightarrow> post" where
  "mk_post i t b = \<lparr>id_opt = i, postId = 0, title = js t, body = js b\<rparr>"

text \<open>The list of the specification's scenarios: [{id:1,name:"A"},{id:3,name:"B"}].\<close>

definition users_AB :: "user list" where
  "users_AB = [mk_user (Some 1) ''A'', mk_user (Some 3) ''B'']"

section \<open>Auxiliary facts\<close>

lemma ulp_small: "n < 9007199254740992 \<Longrightarrow> ulp n = 1"
  by (subst ulp.simps) simp

lemma ulp_pos: "0 < ulp n"
proof (induction n rule: ulp.induct)
  case (1 n)
  then show ?case by (subst ulp.simps) simp
qed

lemma ulp_le: "9007199254740992 \<le> n \<Longrightarrow> ulp n \<le> n"
proof (induction n rule: ulp.induct)
  case (1 n)
  show ?case
  proof (cases "n div 2 < 9007199254740992")
    case True
    then have "ulp (n div 2) = 1" by (rule ulp_small)
    with "1.prems" show ?thesis by (subst ulp.simps) simp
  next
    case False
    with "1.IH" "1.prems" have "ulp (n div 2) \<le> n div 2" by simp
    with "1.prems" show ?thesis by (subst ulp.simps) simp
  qed
qed

lemma round_to_multiple_lower: "0 < q \<Longrightarrow> (x div q) * q \<le> round_to_multiple q x"
  by (simp add: round_to_multiple_def Let_def)

lemma round_to_multiple_upper: "0 < q \<Longrightarrow> round_to_multiple q x \<le> (x div q) * q + q"
  by (simp add: round_to_multiple_def Let_def)

lemma round_double_safe:
  assumes "\<bar>x\<bar> < 9007199254740992"
  shows "round_double x = x"
proof -
  from assms have "nat \<bar>x\<bar> < 9007199254740992" by simp
  then have "ulp (nat \<bar>x\<bar>) = 1" by (rule ulp_small)
  then show ?thesis by (simp add: round_double_def round_to_multiple_def)
qed

lemma round_double_pos:
  assumes "9007199254740992 \<le> x"
  shows "1 \<le> round_double x"
proof -
  define q where "q = int (ulp (nat \<bar>x\<bar>))"
  have q: "0 < q" by (simp add: q_def ulp_pos)
  have "9007199254740992 \<le> nat \<bar>x\<bar>" using assms by simp
  then have "ulp (nat \<bar>x\<bar>) \<le> nat \<bar>x\<bar>" by (rule ulp_le)
  then have "q \<le> x" using assms by (simp add: q_def)
  with q have "0 < x div q"
    by (simp add: pos_imp_zdiv_pos_iff)
  then have "1 \<le> x div q" by simp
  moreover from q have "1 \<le> q" by simp
  ultimately have "1 * 1 \<le> (x div q) * q"
    by (intro mult_mono) simp_all
  moreover have "(x div q) * q \<le> round_double x"
    using round_to_multiple_lower [OF q, of x] by (simp add: round_double_def q_def)
  ultimately show ?thesis by simp
qed

lemma round_double_neg:
  assumes "x \<le> - 9007199254740992"
  shows "round_double x \<le> 0"
proof -
  define q where "q = int (ulp (nat \<bar>x\<bar>))"
  have q: "0 < q" by (simp add: q_def ulp_pos)
  have "x < 0" using assms by simp
  with q have "x div q < 0"
    by (simp add: div_neg_pos_less0)
  then have "x div q \<le> - 1" by simp
  then have "(x div q) * q \<le> (- 1) * q"
    using q by (intro mult_right_mono) simp_all
  then have "(x div q) * q + q \<le> 0" by simp
  moreover have "round_double x \<le> (x div q) * q + q"
    using round_to_multiple_upper [OF q, of x] by (simp add: round_double_def q_def)
  ultimately show ?thesis by simp
qed

lemma js_add_one_ge_one: "1 \<le> js_add m 1 \<longleftrightarrow> 0 \<le> m"
proof -
  consider "\<bar>m + 1\<bar> < 9007199254740992" | "9007199254740992 \<le> m + 1"
    | "m + 1 \<le> - 9007199254740992"
    by linarith
  then show ?thesis
  proof cases
    case 1
    then show ?thesis by (simp add: js_add_def round_double_safe)
  next
    case 2
    then show ?thesis using round_double_pos [of "m + 1"] by (simp add: js_add_def)
  next
    case 3
    then show ?thesis using round_double_neg [of "m + 1"] by (simp add: js_add_def)
  qed
qed

lemma js_add_one_safe:
  assumes "safe_integer m"
  shows "js_add m 1 = m + 1"
proof (cases "\<bar>m + 1\<bar> < 9007199254740992")
  case True
  then show ?thesis by (simp add: js_add_def round_double_safe)
next
  case False
  with assms have "m + 1 = 9007199254740992"
    by (simp add: safe_integer_def)
  then show ?thesis
    by (simp add: js_add_def round_double_def round_to_multiple_def ulp.simps)
qed

lemma js_add_at_2_53: "js_add 9007199254740992 1 = 9007199254740992"
  by (simp add: js_add_def round_double_def round_to_multiple_def ulp.simps)

lemma Math_max_Max:
  assumes "xs \<noteq> []"
  shows "Math_max xs = Max (set xs)"
proof (cases xs)
  case Nil
  with assms show ?thesis by simp
next
  case (Cons a list)
  then show ?thesis using Max.set_eq_fold [of a list] by (simp add: Math_max_def)
qed

lemma or_else_zero: "or_else (id_opt item) 0 = identifier_or_zero item"
  by (simp add: or_else_def identifier_or_zero_def split: option.split)

lemma dropWhile_all: "(\<forall>x\<in>set (dropWhile P s). P x) \<longleftrightarrow> (\<forall>x\<in>set s. P x)"
  by (induction s) auto

lemma trim_falsy_iff: "falsy_string (trim s) \<longleftrightarrow> whitespace_only s"
  by (simp add: falsy_string_def trim_def whitespace_only_def list_all_iff dropWhile_all)



lemma response_json_ok: "ok r \<Longrightarrow> response_json (Resolved r) = json r"
  by (simp add: response_json_def response_ok_def)

lemma response_ok_ok: "ok r \<Longrightarrow> response_ok (Resolved r) = Inr r"
  by (simp add: response_ok_def)

lemmas react_setters = set_items_def set_loading_def set_error_def set_formData_def

lemmas catch_defs = catch_block_def console_error_def

lemma createFetchHandler_success:
  assumes "response_json (net (GET baseUrl)) = Inr data"
  shows "createFetchHandler baseUrl set_items set_loading set_error entityName net w =
    w\<lparr>item_list := data, loading := False, error := None,
      requests := requests w @ [GET baseUrl],
      rendered := rendered w @ [(shown w)\<lparr>loading := True, error := None\<rparr>]\<rparr>"
  using assms
  by (simp add: createFetchHandler_def fetch_def react_setters shown_def)


lemma createCreateHandler_success:
  assumes "response_json (net (POST baseUrl itemData)) = Inr newItem"
  shows "createCreateHandler baseUrl set_items set_error set_formData items clearFormData
           entityName net itemData w =
    w\<lparr>item_list := items @
        [newItem\<lparr>id_opt := Some (js_add (largest_identifier items) 1)\<rparr>],
      error := None, formData := clearFormData,
      requests := requests w @ [POST baseUrl itemData],
      rendered := rendered w @ [(shown w)\<lparr>error := None\<rparr>]\<rparr>"
  using assms
  by (simp add: createCreateHandler_def fetch_def react_setters Math_max_Max or_else_zero
      largest_identifier_def shown_def)

lemma createUpdateHandler_no_id:
  assumes "\<not> truthy (id_opt itemData)"
  shows "createUpdateHandler baseUrl set_items set_error set_formData items clearFormData
           entityName net itemData w =
    w\<lparr>error := Some (''Cannot update '' @ entityName @ '' without an ID''),
      console := console w @
        [(''Error updating '' @ entityName @ '':'',
          Error (''Cannot update '' @ entityName @ '' without an ID''))]\<rparr>"
  using assms
  by (simp add: createUpdateHandler_def react_setters catch_defs caught_message_def)

lemma createUpdateHandler_success:
  assumes "truthy (id_opt itemData)"
    and "response_json (net (PUT baseUrl (the (id_opt itemData)) itemData)) = Inr savedItem"
  shows "createUpdateHandler baseUrl set_items set_error set_formData items clearFormData
           entityName net itemData w =
    w\<lparr>item_list := map (\<lambda>item. if id_opt item = id_opt itemData then savedItem else item) items,
      error := None, formData := clearFormData,
      requests := requests w @ [PUT baseUrl (the (id_opt itemData)) itemData],
      rendered := rendered w @ [(shown w)\<lparr>error := None\<rparr>]\<rparr>"
  using assms by (simp add: createUpdateHandler_def fetch_def react_setters shown_def)

lemma createDeleteHandler_success:
  assumes "response_ok (net (DELETE baseUrl ident)) = Inr r"
  shows "createDeleteHandler baseUrl set_items set_error items entityName net ident w =
    w\<lparr>item_list := filter (\<lambda>item. id_opt item \<noteq> Some ident) items,
      error := None,
      requests := requests w @ [DELETE baseUrl ident],
      rendered := rendered w @ [(shown w)\<lparr>error := None\<rparr>]\<rparr>"
  using assms by (simp add: createDeleteHandler_def fetch_def react_setters shown_def)

lemma map_replace_none:
  "\<forall>x\<in>set xs. \<not> P x \<Longrightarrow> map (\<lambda>x. if P x then s else x) xs = xs"
  by (induction xs) auto

lemma identifiers_all_present:
  "\<forall>item\<in>set items. id_opt item \<noteq> None \<Longrightarrow> identifiers items = map identifier_or_zero items"
  by (induction items) (auto simp: identifiers_def identifier_or_zero_def)

lemma identifiers_append:
  "identifiers (xs @ ys) = identifiers xs @ identifiers ys"
  by (simp add: identifiers_def List.map_filter_def)

lemma identifiers_le_largest:
  assumes "i \<in> set (identifiers items)"
  shows "i \<le> largest_identifier items"
proof -
  from assms obtain item where "item \<in> set items" and "id_opt item = Some i"
    by (auto simp: identifiers_def List.map_filter_def)
  then have "i \<in> set (map identifier_or_zero items)" and "items \<noteq> []"
    by (force simp: identifier_or_zero_def)+
  then show ?thesis by (simp add: largest_identifier_def)
qed

lemma unique_identifiers_create:
  assumes "unique_identifiers items" and "safe_integer (largest_identifier items)"
  shows "unique_identifiers
           (items @ [newItem\<lparr>id_opt := Some (js_add (largest_identifier items) 1)\<rparr>])"
proof -
  have "largest_identifier items + 1 \<notin> set (identifiers items)"
    using identifiers_le_largest [of "largest_identifier items + 1" items] by auto
  with assms show ?thesis
    by (simp add: unique_identifiers_def identifiers_append js_add_one_safe)
      (simp add: identifiers_def)
qed

lemma identifiers_update:
  assumes "id_opt savedItem = id_opt itemData"
  shows "identifiers (map (\<lambda>item. if id_opt item = id_opt itemData then savedItem else item) items)
           = identifiers items"
  using assms by (induction items) (auto simp: identifiers_def split: option.splits)

lemma identifiers_delete:
  "identifiers (filter (\<lambda>item. id_opt item \<noteq> Some ident) items)
     = filter (\<lambda>i. i \<noteq> ident) (identifiers items)"
  by (induction items) (auto simp: identifiers_def split: option.splits)

lemma map_replace_once:
  "length (filter P xs) = 1 \<Longrightarrow>
   \<exists>i<length xs. P (xs ! i) \<and> map (\<lambda>x. if P x then s else x) xs = xs[i := s]"
proof (induction xs)
  case Nil
  then show ?case by simp
next
  case (Cons x xs)
  show ?case
  proof (cases "P x")
    case True
    with Cons.prems have "\<forall>y\<in>set xs. \<not> P y"
      by (simp add: filter_empty_conv)
    then have "map (\<lambda>x. if P x then s else x) xs = xs"
      by (simp add: map_replace_none)
    with True have "P ((x # xs) ! 0) \<and> map (\<lambda>x. if P x then s else x) (x # xs) = (x # xs)[0 := s]"
      by simp
    then show ?thesis by blast
  next
    case False
    with Cons.prems have "length (filter P xs) = 1" by simp
    then obtain i where "i < length xs" and "P (xs ! i)"
      and "map (\<lambda>x. if P x then s else x) xs = xs[i := s]"
      using Cons.IH by blast
    with False have "Suc i < length (x # xs) \<and> P ((x # xs) ! Suc i)
        \<and> map (\<lambda>x. if P x then s else x) (x # xs) = (x # xs)[Suc i := s]"
      by simp
    then show ?thesis by blast
  qed
qed

lemma no_identifier_no_match:
  "n \<notin> set (identifiers items) \<Longrightarrow> filter (\<lambda>item. id_opt item = Some n) items = []"
  by (induction items) (auto simp: identifiers_def split: option.splits)

lemma unique_match_once:
  "unique_identifiers items \<Longrightarrow> \<exists>item\<in>set items. id_opt item = Some n \<Longrightarrow>
   length (filter (\<lambda>item. id_opt item = Some n) items) = 1"
proof (induction items)
  case Nil
  then show ?case by simp
next
  case (Cons x xs)
  show ?case
  proof (cases "id_opt x = Some n")
    case True
    with Cons.prems(1) have "n \<notin> set (identifiers xs)"
      by (simp add: unique_identifiers_def identifiers_def)
    with True show ?thesis by (simp add: no_identifier_no_match)
  next
    case False
    with Cons.prems have "unique_identifiers xs" and "\<exists>item\<in>set xs. id_opt item = Some n"
      by (auto simp: unique_identifiers_def identifiers_def split: option.splits)
    with False Cons.IH show ?thesis by simp
  qed
qed

lemma largest_identifier_nonneg:
  "0 \<le> largest_identifier items
   \<longleftrightarrow> items = [] \<or> (\<exists>item\<in>set items. 0 \<le> identifier_or_zero item)"
  by (simp add: largest_identifier_def Max_ge_iff)

section \<open>Create\<close>

text \<open>
  Claim C1 as worded, with the new identifier one plus the maximum identifier present in the
  old list, fails at two inputs. On a list that holds an element without identifier next to
  negative identifiers only, the handler counts the missing identifier as 0: on
  [{id:-5,name:"A"},{name:"B"}] the only identifier present is -5, so the words give -4, and
  the handler appends an element with identifier 1. And the handler adds as JavaScript
  does: on [{id:9007199254740992,name:"A"}], where the identifier is 2^53, the sum with 1
  is rounded back to 2^53, so the appended element carries 9007199254740992 and not
  9007199254740993.
\<close>

theorem create_identifier_counterexample:
  "id_opt (last (item_list
     (createCreateHandler ''/users'' set_items set_error set_formData
        [mk_user (Some (- 5)) ''A'', mk_user None ''B''] empty_user ''user''
        (answers (Response 201 (Inr (mk_user (Some 11) ''C'')))) (mk_user None ''C'')
        (idle [mk_user (Some (- 5)) ''A'', mk_user None ''B''] (mk_user None ''C'')))))
     = Some 1
   \<and> identifiers [mk_user (Some (- 5)) ''A'', mk_user None ''B''] = [- 5]
   \<and> spec_new_identifier [mk_user (Some (- 5)) ''A'', mk_user None ''B''] = - 4
   \<and> id_opt (last (item_list
     (createCreateHandler ''/users'' set_items set_error set_formData
        [mk_user (Some 9007199254740992) ''A''] empty_user ''user''
        (answers (Response 201 (Inr (mk_user (Some 11) ''C'')))) (mk_user None ''C'')
        (idle [mk_user (Some 9007199254740992) ''A''] (mk_user None ''C'')))))
     = Some 9007199254740992
   \<and> spec_new_identifier [mk_user (Some 9007199254740992) ''A''] = 9007199254740993"
  by (simp add: createCreateHandler_def fetch_def shown_def response_json_def response_ok_def
      answers_def ok_def idle_def mk_user_def react_setters Math_max_def or_else_def
      js_add_one_safe js_add_at_2_53 safe_integer_def
      spec_new_identifier_def identifiers_def)

text \<open>
  Claim C1, amended. For every successful create on a local list, the resulting list is the
  old list with exactly one element appended at the end: the server's returned
  representation with its identifier replaced by the JavaScript sum of 1 and the largest
  identifier of the old list, where an element without identifier counts as identifier 0
  and the empty list gives 0. Whenever that largest identifier is a safe integer (its
  magnitude is below 2^53), the new identifier is exactly one plus it; it is 1 if the list
  was empty; and whenever, in addition, every element of the old list carries an
  identifier, it is one plus the maximum identifier present, as the specification
  describes. The length grows by one and the form draft is reset to the caller-supplied
  empty template. On the list [{id:1,name:"A"},{id:3,name:"B"}], creating {name:"C"} appends
  an element with id 4 and the list has length 3.
\<close>

theorem create_appends_next_identifier:
  assumes "net (POST baseUrl itemData) = Resolved r" and "ok r" and "json r = Inr newItem"
  shows "item_list (createCreateHandler baseUrl set_items set_error set_formData (item_list w)
                      clearFormData entityName net itemData w)
           = item_list w @
               [newItem\<lparr>id_opt := Some (js_add (largest_identifier (item_list w)) 1)\<rparr>]
       \<and> length (item_list (createCreateHandler baseUrl set_items set_error set_formData
                      (item_list w) clearFormData entityName net itemData w))
           = length (item_list w) + 1
       \<and> formData (createCreateHandler baseUrl set_items set_error set_formData (item_list w)
                      clearFormData entityName net itemData w) = clearFormData
       \<and> (safe_integer (largest_identifier (item_list w)) \<longrightarrow>
            id_opt (last (item_list (createCreateHandler baseUrl set_items set_error set_formData
                      (item_list w) clearFormData entityName net itemData w)))
              = Some (largest_identifier (item_list w) + 1))
       \<and> (item_list w = [] \<longrightarrow>
            id_opt (last (item_list (createCreateHandler baseUrl set_items set_error set_formData
                      (item_list w) clearFormData entityName net itemData w)))
              = Some 1)
       \<and> (safe_integer (largest_identifier (item_list w))
            \<and> (\<forall>item\<in>set (item_list w). id_opt item \<noteq> None) \<longrightarrow>
            id_opt (last (item_list (createCreateHandler baseUrl set_items set_error set_formData
                      (item_list w) clearFormData entityName net itemData w)))
              = Some (spec_new_identifier (item_list w)))"
proof -
  have j: "response_json (net (POST baseUrl itemData)) = Inr newItem"
    using assms by (simp add: response_json_ok)
  have empty: "js_add (largest_identifier (item_list w)) 1 = 1" if "item_list w = []"
    using that js_add_one_safe [of 0] by (simp add: largest_identifier_def safe_integer_def)
  have spec: "largest_identifier (item_list w) + 1 = spec_new_identifier (item_list w)"
    if "\<forall>item\<in>set (item_list w). id_opt item \<noteq> None"
    using that
    by (simp add: largest_identifier_def spec_new_identifier_def identifiers_all_present)
  from j empty spec show ?thesis
    by (simp add: createCreateHandler_success js_add_one_safe)
qed

theorem create_appends_next_identifier_witness:
  "answers (Response 201 (Inr (mk_user (Some 11) ''C''))) (POST ''/users'' (mk_user None ''C''))
     = Resolved (Response 201 (Inr (mk_user (Some 11) ''C'')))
   \<and> ok (Response 201 (Inr (mk_user (Some 11) ''C'')))
   \<and> safe_integer (largest_identifier (item_list (idle users_AB (mk_user None ''C''))))
   \<and> list_all (\<lambda>item. id_opt item \<noteq> None) (item_list (idle users_AB (mk_user None ''C'')))
   \<and> createCreateHandler ''/users'' set_items set_error set_formData users_AB empty_user ''user''
        (answers (Response 201 (Inr (mk_user (Some 11) ''C'')))) (mk_user None ''C'')
        (idle users_AB (mk_user None ''C''))
      = (idle [mk_user (Some 1) ''A'', mk_user (Some 3) ''B'', mk_user (Some 4) ''C''] empty_user)
          \<lparr>requests := [POST ''/users'' (mk_user None ''C'')],
           rendered := [shown (idle users_AB (mk_user None ''C''))]\<rparr>
   \<and> length [mk_user (Some 1) ''A'', mk_user (Some 3) ''B'', mk_user (Some 4) ''C''] = 3
   \<and> spec_new_identifier users_AB = 4
   \<and> item_list (idle [] (mk_user None ''C'')) = []
   \<and> item_list (createCreateHandler ''/users'' set_items set_error set_formData [] empty_user
        ''user'' (answers (Response 201 (Inr (mk_user (Some 11) ''C'')))) (mk_user None ''C'')
        (idle [] (mk_user None ''C'')))
      = [mk_user (Some 1) ''C'']"
proof -
  have l: "item_list (idle users_AB (mk_user None ''C'')) = users_AB"
    and n: "item_list (idle [] (mk_user None ''C'')) = []"
    by (simp_all add: idle_def)
  have full: "createCreateHandler ''/users'' set_items set_error set_formData users_AB empty_user
        ''user'' (answers (Response 201 (Inr (mk_user (Some 11) ''C'')))) (mk_user None ''C'')
        (idle users_AB (mk_user None ''C''))
      = (idle [mk_user (Some 1) ''A'', mk_user (Some 3) ''B'', mk_user (Some 4) ''C''] empty_user)
          \<lparr>requests := [POST ''/users'' (mk_user None ''C'')],
           rendered := [shown (idle users_AB (mk_user None ''C''))]\<rparr>"
    by (simp add: createCreateHandler_def fetch_def shown_def response_json_def response_ok_def
        answers_def ok_def idle_def mk_user_def users_AB_def react_setters Math_max_def
        or_else_def js_add_one_safe js_add_at_2_53 safe_integer_def empty_user_def)
  have safe: "safe_integer (largest_identifier users_AB)"
    and spec: "spec_new_identifier users_AB = 4"
    by (simp_all add: safe_integer_def largest_identifier_def identifier_or_zero_def
        spec_new_identifier_def identifiers_def users_AB_def mk_user_def)
  have first: "item_list (createCreateHandler ''/users'' set_items set_error set_formData []
        empty_user ''user'' (answers (Response 201 (Inr (mk_user (Some 11) ''C''))))
        (mk_user None ''C'') (idle [] (mk_user None ''C'')))
      = [mk_user (Some 1) ''C'']"
    using create_appends_next_identifier
      [where net = "answers (Response 201 (Inr (mk_user (Some 11) ''C'')))"
         and baseUrl = "''/users''" and itemData = "mk_user None ''C''"
         and r = "Response 201 (Inr (mk_user (Some 11) ''C''))"
         and newItem = "mk_user (Some 11) ''C''"
         and w = "idle [] (mk_user None ''C'')"
         and clearFormData = empty_user and entityName = "''user''", THEN conjunct1]
    by (simp add: idle_def answers_def ok_def largest_identifier_def js_add_one_safe
        safe_integer_def mk_user_def)
  have scenario: "id_opt (last (item_list
        (createCreateHandler ''/users'' set_items set_error set_formData users_AB empty_user
           ''user'' (answers (Response 201 (Inr (mk_user (Some 11) ''C'')))) (mk_user None ''C'')
           (idle users_AB (mk_user None ''C''))))) = Some (spec_new_identifier users_AB)"
    using safe
      create_appends_next_identifier
        [where net = "answers (Response 201 (Inr (mk_user (Some 11) ''C'')))"
           and baseUrl = "''/users''" and itemData = "mk_user None ''C''"
           and r = "Response 201 (Inr (mk_user (Some 11) ''C''))"
           and newItem = "mk_user (Some 11) ''C''"
           and w = "idle users_AB (mk_user None ''C'')"
           and clearFormData = empty_user and entityName = "''user''",
         THEN conjunct2, THEN conjunct2, THEN conjunct2, THEN conjunct2, THEN conjunct2]
    by (simp add: l answers_def ok_def) (simp add: users_AB_def mk_user_def)
  from l n full safe spec first scenario show ?thesis
    by (simp add: answers_def ok_def users_AB_def mk_user_def)
qed

section \<open>Uniqueness of identifiers\<close>

text \<open>
  Claim C2 as worded fails for three of the four operations. Fetch and update put whatever
  the server returns into the list: a fetch whose response body repeats an identifier, and
  an update whose response carries the identifier of another element, both lead from a list
  with pairwise distinct identifiers to one with a repeated identifier. And create adds as
  JavaScript does: on [{id:1},{id:9007199254740992}], where the largest identifier is 2^53,
  the sum with 1 is rounded back to 2^53 and the appended element repeats it.
\<close>

theorem identifiers_unique_counterexample:
  "unique_identifiers [mk_post (Some 1) ''a'' ''x'', mk_post (Some 3) ''b'' ''y'']
   \<and> \<not> unique_identifiers (item_list
        (handleFetchPosts
           (answers (Response 200 (Inr [mk_post (Some 1) ''a'' ''x'', mk_post (Some 1) ''b'' ''y''])))
           (idle [mk_post (Some 1) ''a'' ''x'', mk_post (Some 3) ''b'' ''y''] empty_post)))
   \<and> \<not> unique_identifiers (item_list
        (handleUpdatePost
           (answers (Response 200 (Inr (mk_post (Some 1) ''b2'' ''y''))))
           (mk_post (Some 3) ''b2'' ''y'')
           (idle [mk_post (Some 1) ''a'' ''x'', mk_post (Some 3) ''b'' ''y'']
              (mk_post (Some 3) ''b2'' ''y''))))
   \<and> unique_identifiers
        [mk_post (Some 1) ''a'' ''x'', mk_post (Some 9007199254740992) ''b'' ''y'']
   \<and> \<not> unique_identifiers (item_list
        (handleCreatePost
           (answers (Response 201 (Inr (mk_post (Some 101) ''c'' ''z''))))
           (mk_post None ''c'' ''z'')
           (idle [mk_post (Some 1) ''a'' ''x'', mk_post (Some 9007199254740992) ''b'' ''y'']
              (mk_post None ''c'' ''z''))))"
  by (simp add: unique_identifiers_def identifiers_def handleFetchPosts_def handleUpdatePost_def
      handleCreatePost_def createFetchHandler_def createUpdateHandler_def
      createCreateHandler_def Math_max_def or_else_def js_add_one_safe js_add_at_2_53 safe_integer_def fetch_def shown_def
      response_json_def response_ok_def answers_def ok_def idle_def mk_post_def truthy_def
      react_setters)

text \<open>
  Claim C2, amended. For every starting list whose identifiers are pairwise distinct: the
  list produced by a successful create (synthesized identifier) has pairwise distinct
  identifiers, provided the largest identifier of the list (an element without identifier
  counting as 0) is a safe integer, of magnitude below 2^53; so has the list produced by a
  successful update, provided the server's returned representation carries the submitted
  identifier; so has the list produced by a successful delete; and the list produced by a
  successful fetch has pairwise distinct identifiers exactly when the response body has.
\<close>

theorem operations_keep_identifiers_unique:
  assumes "unique_identifiers (item_list w)"
  shows "(net (POST baseUrl itemData) = Resolved r \<and> ok r \<and> json r = Inr newItem
            \<and> safe_integer (largest_identifier (item_list w)) \<longrightarrow>
            unique_identifiers (item_list
              (createCreateHandler baseUrl set_items set_error set_formData (item_list w)
                 clearFormData entityName net itemData w)))
       \<and> (id_opt itemData = Some n \<and> n \<noteq> 0 \<and> net (PUT baseUrl n itemData) = Resolved r
            \<and> ok r \<and> json r = Inr savedItem \<and> id_opt savedItem = Some n \<longrightarrow>
            unique_identifiers (item_list
              (createUpdateHandler baseUrl set_items set_error set_formData (item_list w)
                 clearFormData entityName net itemData w)))
       \<and> (net_delete (DELETE baseUrl ident) = Resolved r_delete \<and> ok r_delete \<longrightarrow>
            unique_identifiers (item_list
              (createDeleteHandler baseUrl set_items set_error (item_list w) entityName
                 net_delete ident w)))
       \<and> (net_fetch (GET baseUrl) = Resolved r_fetch \<and> ok r_fetch \<and> json r_fetch = Inr data \<longrightarrow>
            unique_identifiers (item_list
              (createFetchHandler baseUrl set_items set_loading set_error entityName
                 net_fetch w))
            = unique_identifiers data)"
proof -
  have create: "unique_identifiers (item_list
              (createCreateHandler baseUrl set_items set_error set_formData (item_list w)
                 clearFormData entityName net itemData w))"
    if "net (POST baseUrl itemData) = Resolved r" and "ok r" and "json r = Inr newItem"
      and "safe_integer (largest_identifier (item_list w))"
  proof -
    have "response_json (net (POST baseUrl itemData)) = Inr newItem"
      using that by (simp add: response_json_ok)
    with assms that(4) show ?thesis
      by (simp add: createCreateHandler_success unique_identifiers_create)
  qed
  have update: "unique_identifiers (item_list
              (createUpdateHandler baseUrl set_items set_error set_formData (item_list w)
                 clearFormData entityName net itemData w))"
    if "id_opt itemData = Some n" and "n \<noteq> 0" and "net (PUT baseUrl n itemData) = Resolved r"
      and "ok r" and "json r = Inr savedItem" and "id_opt savedItem = Some n"
  proof -
    have t: "truthy (id_opt itemData)"
      using that by (simp add: truthy_def)
    have j: "response_json (net (PUT baseUrl (the (id_opt itemData)) itemData)) = Inr savedItem"
      using that by (simp add: response_json_ok)
    have "id_opt savedItem = id_opt itemData"
      using that by simp
    with assms t j show ?thesis
      by (simp add: createUpdateHandler_success unique_identifiers_def identifiers_update)
  qed
  have delete: "unique_identifiers (item_list
              (createDeleteHandler baseUrl set_items set_error (item_list w) entityName
                 net_delete ident w))"
    if "net_delete (DELETE baseUrl ident) = Resolved r_delete" and "ok r_delete"
  proof -
    have "response_ok (net_delete (DELETE baseUrl ident)) = Inr r_delete"
      using that by (simp add: response_ok_ok)
    with assms show ?thesis
      by (simp add: createDeleteHandler_success unique_identifiers_def identifiers_delete)
  qed
  have fetch: "unique_identifiers (item_list
              (createFetchHandler baseUrl set_items set_loading set_error entityName
                 net_fetch w))
            = unique_identifiers data"
    if "net_fetch (GET baseUrl) = Resolved r_fetch" and "ok r_fetch" and "json r_fetch = Inr data"
  proof -
    have "response_json (net_fetch (GET baseUrl)) = Inr data"
      using that by (simp add: response_json_ok)
    then show ?thesis
      by (simp add: createFetchHandler_success)
  qed
  from create update delete fetch show ?thesis by blast
qed

theorem operations_keep_identifiers_unique_witness:
  "unique_identifiers (item_list (idle users_AB empty_user))
   \<and> answers (Response 201 (Inr (mk_user (Some 11) ''C''))) (POST ''/users'' (mk_user None ''C''))
       = Resolved (Response 201 (Inr (mk_user (Some 11) ''C'')))
   \<and> ok (Response 201 (Inr (mk_user (Some 11) ''C'')))
   \<and> safe_integer (largest_identifier (item_list (idle users_AB empty_user)))
   \<and> unique_identifiers (item_list
        (createCreateHandler ''/users'' set_items set_error set_formData users_AB empty_user
           ''user'' (answers (Response 201 (Inr (mk_user (Some 11) ''C'')))) (mk_user None ''C'')
           (idle users_AB empty_user)))
   \<and> id_opt (mk_user (Some 3) ''B2'') = Some 3 \<and> (3::int) \<noteq> 0
   \<and> answers (Response 200 (Inr (mk_user (Some 3) ''B2''))) (PUT ''/users'' 3 (mk_user (Some 3) ''B2''))
       = Resolved (Response 200 (Inr (mk_user (Some 3) ''B2'')))
   \<and> ok (Response 200 (Inr (mk_user (Some 3) ''B2'')))
   \<and> unique_identifiers (item_list
        (createUpdateHandler ''/users'' set_items set_error set_formData users_AB empty_user
           ''user'' (answers (Response 200 (Inr (mk_user (Some 3) ''B2''))))
           (mk_user (Some 3) ''B2'') (idle users_AB empty_user)))
   \<and> answers (Response 200 (Inr ())) (DELETE ''/users'' 1 :: user request)
       = Resolved (Response 200 (Inr ()))
   \<and> ok (Response 200 (Inr ()))
   \<and> unique_identifiers (item_list
        (createDeleteHandler ''/users'' set_items set_error users_AB ''user''
           (answers (Response 200 (Inr ()))) 1 (idle users_AB empty_user)))
   \<and> answers (Response 200 (Inr [mk_user (Some 7) ''X'', mk_user (Some 2) ''Y'']))
        (GET ''/users'' :: user request)
       = Resolved (Response 200 (Inr [mk_user (Some 7) ''X'', mk_user (Some 2) ''Y'']))
   \<and> ok (Response 200 (Inr [mk_user (Some 7) ''X'', mk_user (Some 2) ''Y'']))
   \<and> unique_identifiers (item_list
        (createFetchHandler ''/users'' set_items set_loading set_error ''users''
           (answers (Response 200 (Inr [mk_user (Some 7) ''X'', mk_user (Some 2) ''Y''])))
           (idle users_AB empty_user)))"
proof -
  have u: "unique_identifiers (item_list (idle users_AB empty_user))"
    by (simp add: unique_identifiers_def identifiers_def idle_def users_AB_def mk_user_def)
  have l: "item_list (idle users_AB empty_user) = users_AB"
    by (simp add: idle_def)
  have d: "unique_identifiers [mk_user (Some 7) ''X'', mk_user (Some 2) ''Y'']"
    by (simp add: unique_identifiers_def identifiers_def mk_user_def)
  have s: "safe_integer (largest_identifier users_AB)"
    by (simp add: safe_integer_def largest_identifier_def identifier_or_zero_def
        users_AB_def mk_user_def)
  note inv = operations_keep_identifiers_unique [OF u]
  have c: "unique_identifiers (item_list
        (createCreateHandler ''/users'' set_items set_error set_formData users_AB empty_user
           ''user'' (answers (Response 201 (Inr (mk_user (Some 11) ''C'')))) (mk_user None ''C'')
           (idle users_AB empty_user)))"
    using inv [where baseUrl = "''/users''" and entityName = "''user''"
           and clearFormData = empty_user
           and net = "answers (Response 201 (Inr (mk_user (Some 11) ''C'')))"
           and itemData = "mk_user None ''C''"
           and r = "Response 201 (Inr (mk_user (Some 11) ''C''))"
           and newItem = "mk_user (Some 11) ''C''", THEN conjunct1]
    by (simp add: s l answers_def ok_def)
  have p: "unique_identifiers (item_list
        (createUpdateHandler ''/users'' set_items set_error set_formData users_AB empty_user
           ''user'' (answers (Response 200 (Inr (mk_user (Some 3) ''B2''))))
           (mk_user (Some 3) ''B2'') (idle users_AB empty_user)))"
    using inv [where baseUrl = "''/users''" and entityName = "''user''"
           and clearFormData = empty_user
           and net = "answers (Response 200 (Inr (mk_user (Some 3) ''B2'')))"
           and itemData = "mk_user (Some 3) ''B2''" and n = 3
           and r = "Response 200 (Inr (mk_user (Some 3) ''B2''))"
           and savedItem = "mk_user (Some 3) ''B2''", THEN conjunct2, THEN conjunct1]
    by (simp add: l answers_def ok_def mk_user_def)
  have e: "unique_identifiers (item_list
        (createDeleteHandler ''/users'' set_items set_error users_AB ''user''
           (answers (Response 200 (Inr ()))) 1 (idle users_AB empty_user)))"
    using inv [where baseUrl = "''/users''" and entityName = "''user''"
           and net_delete = "answers (Response 200 (Inr ()))" and ident = 1
           and r_delete = "Response 200 (Inr ())",
           THEN conjunct2, THEN conjunct2, THEN conjunct1]
    by (simp add: l answers_def ok_def)
  have f: "unique_identifiers (item_list
        (createFetchHandler ''/users'' set_items set_loading set_error ''users''
           (answers (Response 200 (Inr [mk_user (Some 7) ''X'', mk_user (Some 2) ''Y''])))
           (idle users_AB empty_user)))"
    using d inv [where baseUrl = "''/users''" and entityName = "''users''"
           and net_fetch = "answers (Response 200 (Inr [mk_user (Some 7) ''X'', mk_user (Some 2) ''Y'']))"
           and r_fetch = "Response 200 (Inr [mk_user (Some 7) ''X'', mk_user (Some 2) ''Y''])"
           and data = "[mk_user (Some 7) ''X'', mk_user (Some 2) ''Y'']",
           THEN conjunct2, THEN conjunct2, THEN conjunct2]
    by (simp add: answers_def ok_def)
  from u s l c p e f show ?thesis
    by (simp add: answers_def ok_def mk_user_def)
qed

section \<open>Update\<close>

text \<open>
  Claim C3. For every update input whose identifier is absent or zero, the update operation
  fails fast: it records the local error message, issues no network request (the list of
  requests issued is what it was), and leaves the local list and the form draft unchanged.
\<close>

theorem update_without_identifier_fails_fast:
  assumes "id_opt itemData = None \<or> id_opt itemData = Some 0"
  shows "error (createUpdateHandler baseUrl set_items set_error set_formData items clearFormData
                  entityName net itemData w)
           = Some (''Cannot update '' @ entityName @ '' without an ID'')
       \<and> requests (createUpdateHandler baseUrl set_items set_error set_formData items
                  clearFormData entityName net itemData w) = requests w
       \<and> item_list (createUpdateHandler baseUrl set_items set_error set_formData items
                  clearFormData entityName net itemData w) = item_list w
       \<and> formData (createUpdateHandler baseUrl set_items set_error set_formData items
                  clearFormData entityName net itemData w) = formData w"
proof -
  have "\<not> truthy (id_opt itemData)"
    using assms by (auto simp: truthy_def)
  then show ?thesis by (simp add: createUpdateHandler_no_id)
qed

theorem update_without_identifier_fails_fast_witness:
  "(id_opt (mk_post (Some 0) ''t'' ''b'') = None \<or> id_opt (mk_post (Some 0) ''t'' ''b'') = Some 0)
   \<and> handleUpdatePost (answers (Response 200 (Inr (mk_post (Some 9) ''t'' ''b''))))
        (mk_post (Some 0) ''t'' ''b'')
        (idle [mk_post (Some 1) ''old'' ''x''] (mk_post (Some 0) ''t'' ''b''))
     = (idle [mk_post (Some 1) ''old'' ''x''] (mk_post (Some 0) ''t'' ''b''))
         \<lparr>error := Some ''Cannot update post without an ID'',
          console := [(''Error updating post:'', Error ''Cannot update post without an ID'')]\<rparr>"
  using update_without_identifier_fails_fast
    [of "mk_post (Some 0) ''t'' ''b''" baseUrl_posts "[mk_post (Some 1) ''old'' ''x'']" empty_post
        "''post''" "answers (Response 200 (Inr (mk_post (Some 9) ''t'' ''b'')))"
        "idle [mk_post (Some 1) ''old'' ''x''] (mk_post (Some 0) ''t'' ''b'')"]
  by (simp add: handleUpdatePost_def createUpdateHandler_def idle_def mk_post_def truthy_def
      react_setters catch_defs caught_message_def)

text \<open>
  Claim C4 as worded fails on a list in which two elements carry the submitted identifier:
  the update handler replaces every element that carries it. On
  [{id:1,name:"A"},{id:3,name:"B"},{id:3,name:"X"}] an update of identifier 3 replaces two
  elements.
\<close>

theorem update_replaces_counterexample:
  "item_list
     (createUpdateHandler ''/users'' set_items set_error set_formData
        [mk_user (Some 1) ''A'', mk_user (Some 3) ''B'', mk_user (Some 3) ''X''] empty_user ''user''
        (answers (Response 200 (Inr (mk_user (Some 3) ''B2'')))) (mk_user (Some 3) ''B2'')
        (idle [mk_user (Some 1) ''A'', mk_user (Some 3) ''B'', mk_user (Some 3) ''X'']
           (mk_user (Some 3) ''B2'')))
     = [mk_user (Some 1) ''A'', mk_user (Some 3) ''B2'', mk_user (Some 3) ''B2'']
   \<and> replaced_count [mk_user (Some 1) ''A'', mk_user (Some 3) ''B'', mk_user (Some 3) ''X'']
         [mk_user (Some 1) ''A'', mk_user (Some 3) ''B2'', mk_user (Some 3) ''B2''] = 2"
  by (simp add: createUpdateHandler_def fetch_def shown_def response_json_def response_ok_def answers_def
      ok_def idle_def mk_user_def truthy_def react_setters replaced_count_def js_def)

text \<open>
  Claim C4, amended. For every successful update whose submitted identifier matches exactly
  one element of the local list (which is the case when the identifiers of the list are
  pairwise distinct and one of them is the submitted one), that element is replaced by the
  server's returned representation, every other element is unchanged and keeps its
  position, and the list length is unchanged; afterwards the form draft is the empty
  template. Updating {id:3,name:"B2"} on [{id:1,name:"A"},{id:3,name:"B"}], the server
  returning what was submitted, leaves the id-1 element untouched and the id-3 element
  carries the name "B2".
\<close>

theorem update_replaces_the_matching_element:
  assumes "id_opt itemData = Some n" and "n \<noteq> 0"
    and "net (PUT baseUrl n itemData) = Resolved r" and "ok r" and "json r = Inr savedItem"
  shows "(length (filter (\<lambda>item. id_opt item = Some n) (item_list w)) = 1 \<longrightarrow>
           (\<exists>i<length (item_list w). id_opt (item_list w ! i) = Some n
              \<and> item_list (createUpdateHandler baseUrl set_items set_error set_formData
                   (item_list w) clearFormData entityName net itemData w)
                 = (item_list w)[i := savedItem]))
       \<and> (unique_identifiers (item_list w) \<and> (\<exists>item\<in>set (item_list w). id_opt item = Some n) \<longrightarrow>
           length (filter (\<lambda>item. id_opt item = Some n) (item_list w)) = 1)
       \<and> length (item_list (createUpdateHandler baseUrl set_items set_error set_formData
                   (item_list w) clearFormData entityName net itemData w))
           = length (item_list w)
       \<and> formData (createUpdateHandler baseUrl set_items set_error set_formData
                   (item_list w) clearFormData entityName net itemData w) = clearFormData"
proof -
  have t: "truthy (id_opt itemData)"
    using assms(1,2) by (simp add: truthy_def)
  have j: "response_json (net (PUT baseUrl (the (id_opt itemData)) itemData)) = Inr savedItem"
    using assms by (simp add: response_json_ok)
  have result: "createUpdateHandler baseUrl set_items set_error set_formData
                   (item_list w) clearFormData entityName net itemData w
      = w\<lparr>item_list := map (\<lambda>item. if id_opt item = Some n then savedItem else item) (item_list w),
          error := None, formData := clearFormData,
          requests := requests w @ [PUT baseUrl n itemData],
          rendered := rendered w @ [(shown w)\<lparr>error := None\<rparr>]\<rparr>"
    using t j assms(1) by (simp add: createUpdateHandler_success)
  have once: "\<exists>i<length (item_list w). id_opt (item_list w ! i) = Some n
              \<and> item_list (createUpdateHandler baseUrl set_items set_error set_formData
                   (item_list w) clearFormData entityName net itemData w)
                 = (item_list w)[i := savedItem]"
    if "length (filter (\<lambda>item. id_opt item = Some n) (item_list w)) = 1"
    using map_replace_once [OF that, of savedItem] by (simp add: result)
  from once show ?thesis
    by (simp add: result unique_match_once)
qed

theorem update_replaces_the_matching_element_witness:
  "id_opt (mk_user (Some 3) ''B2'') = Some 3 \<and> (3::int) \<noteq> 0
   \<and> answers (Response 200 (Inr (mk_user (Some 3) ''B2''))) (PUT ''/users'' 3 (mk_user (Some 3) ''B2''))
       = Resolved (Response 200 (Inr (mk_user (Some 3) ''B2'')))
   \<and> ok (Response 200 (Inr (mk_user (Some 3) ''B2'')))
   \<and> unique_identifiers (item_list (idle users_AB (mk_user (Some 3) ''B2'')))
   \<and> (\<exists>item\<in>set (item_list (idle users_AB (mk_user (Some 3) ''B2''))). id_opt item = Some 3)
   \<and> length (filter (\<lambda>item. id_opt item = Some 3)
        (item_list (idle users_AB (mk_user (Some 3) ''B2'')))) = 1
   \<and> createUpdateHandler ''/users'' set_items set_error set_formData users_AB empty_user ''user''
        (answers (Response 200 (Inr (mk_user (Some 3) ''B2'')))) (mk_user (Some 3) ''B2'')
        (idle users_AB (mk_user (Some 3) ''B2''))
      = (idle [mk_user (Some 1) ''A'', mk_user (Some 3) ''B2''] empty_user)
          \<lparr>requests := [PUT ''/users'' 3 (mk_user (Some 3) ''B2'')],
           rendered := [shown (idle users_AB (mk_user (Some 3) ''B2''))]\<rparr>
   \<and> [mk_user (Some 1) ''A'', mk_user (Some 3) ''B2''] = users_AB[1 := mk_user (Some 3) ''B2'']"
  using update_replaces_the_matching_element
    [where itemData = "mk_user (Some 3) ''B2''" and n = 3 and baseUrl = "''/users''"
       and net = "answers (Response 200 (Inr (mk_user (Some 3) ''B2'')))"
       and r = "Response 200 (Inr (mk_user (Some 3) ''B2''))"
       and savedItem = "mk_user (Some 3) ''B2''"
       and w = "idle users_AB (mk_user (Some 3) ''B2'')"
       and clearFormData = empty_user and entityName = "''user''"]
  by (simp add: createUpdateHandler_def fetch_def shown_def response_json_def response_ok_def answers_def
      ok_def idle_def mk_user_def users_AB_def truthy_def react_setters unique_identifiers_def
      identifiers_def)

section \<open>Delete\<close>

text \<open>
  Claim C5 as worded fails on a list in which two elements carry the deleted identifier:
  the delete handler removes every element that carries it. On
  [{id:1,name:"A"},{id:1,name:"X"},{id:3,name:"B"}], deleting 1 shortens the list by two.
\<close>

theorem delete_removes_counterexample:
  "item_list
     (createDeleteHandler ''/users'' set_items set_error
        [mk_user (Some 1) ''A'', mk_user (Some 1) ''X'', mk_user (Some 3) ''B''] ''user''
        (answers (Response 200 (Inr ()))) 1
        (idle [mk_user (Some 1) ''A'', mk_user (Some 1) ''X'', mk_user (Some 3) ''B''] empty_user))
     = [mk_user (Some 3) ''B'']
   \<and> length [mk_user (Some 1) ''A'', mk_user (Some 1) ''X'', mk_user (Some 3) ''B''] - 1
       \<noteq> length [mk_user (Some 3) ''B'']"
  by (simp add: createDeleteHandler_def fetch_def shown_def response_ok_def answers_def ok_def idle_def
      mk_user_def react_setters)

text \<open>
  Claim C5, amended. For every successful delete of an identifier, the resulting local list
  is the old list without the elements that carried the identifier, the others preserved in
  their order: no element with the identifier is left, and the length decreases by the
  number of elements that carried it. It decreases by exactly one if the identifiers of the
  list were pairwise distinct and one of them was the deleted one, and the list is unchanged
  if no element carried the identifier.
\<close>

theorem delete_removes_the_identifier:
  assumes "net (DELETE baseUrl ident) = Resolved r" and "ok r"
  shows "item_list (createDeleteHandler baseUrl set_items set_error (item_list w) entityName
                      net ident w)
           = filter (\<lambda>item. id_opt item \<noteq> Some ident) (item_list w)
       \<and> (\<forall>item\<in>set (item_list (createDeleteHandler baseUrl set_items set_error (item_list w)
                      entityName net ident w)). id_opt item \<noteq> Some ident)
       \<and> length (item_list (createDeleteHandler baseUrl set_items set_error (item_list w)
                      entityName net ident w))
           + length (filter (\<lambda>item. id_opt item = Some ident) (item_list w))
           = length (item_list w)
       \<and> (unique_identifiers (item_list w) \<and> (\<exists>item\<in>set (item_list w). id_opt item = Some ident) \<longrightarrow>
            length (item_list (createDeleteHandler baseUrl set_items set_error (item_list w)
                      entityName net ident w)) + 1
              = length (item_list w))
       \<and> ((\<forall>item\<in>set (item_list w). id_opt item \<noteq> Some ident) \<longrightarrow>
            item_list (createDeleteHandler baseUrl set_items set_error (item_list w)
                      entityName net ident w) = item_list w)"
proof -
  have "response_ok (net (DELETE baseUrl ident)) = Inr r"
    using assms by (simp add: response_ok_ok)
  then have result: "item_list (createDeleteHandler baseUrl set_items set_error (item_list w)
                      entityName net ident w)
           = filter (\<lambda>item. id_opt item \<noteq> Some ident) (item_list w)"
    by (simp add: createDeleteHandler_success)
  have count: "length (filter (\<lambda>item. id_opt item \<noteq> Some ident) (item_list w))
           + length (filter (\<lambda>item. id_opt item = Some ident) (item_list w))
           = length (item_list w)"
    using sum_length_filter_compl [of "\<lambda>item. id_opt item = Some ident" "item_list w"]
    by simp
  have one: "length (filter (\<lambda>item. id_opt item \<noteq> Some ident) (item_list w)) + 1
              = length (item_list w)"
    if "unique_identifiers (item_list w)" and "\<exists>item\<in>set (item_list w). id_opt item = Some ident"
    using count unique_match_once [OF that] by simp
  have none: "filter (\<lambda>item. id_opt item \<noteq> Some ident) (item_list w) = item_list w"
    if "\<forall>item\<in>set (item_list w). id_opt item \<noteq> Some ident"
    using that by (simp add: filter_id_conv)
  from count one none show ?thesis
    unfolding result by simp
qed

theorem delete_removes_the_identifier_witness:
  "answers (Response 200 (Inr ())) (DELETE ''/users'' 1 :: user request)
     = Resolved (Response 200 (Inr ()))
   \<and> ok (Response 200 (Inr ()))
   \<and> unique_identifiers (item_list (idle users_AB empty_user))
   \<and> (\<exists>item\<in>set (item_list (idle users_AB empty_user)). id_opt item = Some 1)
   \<and> createDeleteHandler ''/users'' set_items set_error users_AB ''user''
        (answers (Response 200 (Inr ()))) 1 (idle users_AB empty_user)
      = (idle [mk_user (Some 3) ''B''] empty_user)
          \<lparr>requests := [DELETE ''/users'' 1], rendered := [shown (idle users_AB empty_user)]\<rparr>
   \<and> list_all (\<lambda>item. id_opt item \<noteq> Some 2) (item_list (idle users_AB empty_user))
   \<and> createDeleteHandler ''/users'' set_items set_error users_AB ''user''
        (answers (Response 200 (Inr ()))) 2 (idle users_AB empty_user)
      = (idle users_AB empty_user)
          \<lparr>requests := [DELETE ''/users'' 2], rendered := [shown (idle users_AB empty_user)]\<rparr>"
  using delete_removes_the_identifier
    [where net = "answers (Response 200 (Inr ()))" and baseUrl = "''/users''" and ident = 1
       and r = "Response 200 (Inr ())" and w = "idle users_AB empty_user"
       and entityName = "''user''"]
    delete_removes_the_identifier
    [where net = "answers (Response 200 (Inr ()))" and baseUrl = "''/users''" and ident = 2
       and r = "Response 200 (Inr ())" and w = "idle users_AB empty_user"
       and entityName = "''user''"]
  by (simp add: createDeleteHandler_def fetch_def shown_def response_ok_def answers_def ok_def idle_def
      mk_user_def users_AB_def react_setters unique_identifiers_def identifiers_def)

section \<open>Fetch-all\<close>

text \<open>
  Claim C6. For every successful fetch-all (the request resolves, the status is a success
  status and the body parses), the local list afterwards is exactly the parsed response
  body, element for element and in the same order, whatever the list held before.
\<close>

theorem fetch_success_replaces_list:
  assumes "net (GET baseUrl) = Resolved r" and "ok r" and "json r = Inr data"
  shows "item_list (createFetchHandler baseUrl set_items set_loading set_error entityName net w)
         = data"
proof -
  have "response_json (net (GET baseUrl)) = Inr data"
    using assms by (simp add: response_json_ok)
  then show ?thesis by (simp add: createFetchHandler_success)
qed

theorem fetch_success_replaces_list_witness:
  "answers (Response 200 (Inr [mk_post (Some 7) ''t'' ''b'', mk_post (Some 2) ''u'' ''c'']))
     (GET baseUrl_posts)
     = Resolved (Response 200 (Inr [mk_post (Some 7) ''t'' ''b'', mk_post (Some 2) ''u'' ''c'']))
   \<and> ok (Response 200 (Inr [mk_post (Some 7) ''t'' ''b'', mk_post (Some 2) ''u'' ''c'']))
   \<and> item_list (handleFetchPosts
         (answers (Response 200 (Inr [mk_post (Some 7) ''t'' ''b'', mk_post (Some 2) ''u'' ''c''])))
         (idle [mk_post (Some 1) ''old'' ''x''] empty_post))
       = [mk_post (Some 7) ''t'' ''b'', mk_post (Some 2) ''u'' ''c'']"
  using fetch_success_replaces_list
    [of "answers (Response 200 (Inr [mk_post (Some 7) ''t'' ''b'', mk_post (Some 2) ''u'' ''c'']))"
        baseUrl_posts "Response 200 (Inr [mk_post (Some 7) ''t'' ''b'', mk_post (Some 2) ''u'' ''c''])"
        "[mk_post (Some 7) ''t'' ''b'', mk_post (Some 2) ''u'' ''c'']" "''posts''"
        "idle [mk_post (Some 1) ''old'' ''x''] empty_post"]
  by (simp add: answers_def ok_def handleFetchPosts_def)



section \<open>Form submission\<close>

text \<open>
  Claim C8. For every form submission in which a required text field (title or body for
  posts, name or email for users) is empty or consists of white space only, the submit
  handler does nothing but record the validation error through its error setter: neither
  operation is invoked, so no request is issued, and with the setter of the page's error
  cell the local list and the form draft are what they were.
\<close>

theorem blank_required_field_is_rejected:
  shows "(whitespace_only (title (formData w)) \<or> whitespace_only (body (formData w)) \<longrightarrow>
            handleSubmit_posts setError handleUpdatePost' handleCreatePost' w
              = setError (Some ''Please fill in all fields'') w)
       \<and> (whitespace_only (name (formData u)) \<or> whitespace_only (email (formData u)) \<longrightarrow>
            handleSubmit_users setError' handleUpdate handleCreate u
              = setError' (Some ''Please fill in all fields'') u)
       \<and> (whitespace_only (name (formData u)) \<or> whitespace_only (email (formData u)) \<longrightarrow>
            handleSubmit_users set_error handleUpdate handleCreate u
              = u\<lparr>error := Some ''Please fill in all fields''\<rparr>
          \<and> requests (handleSubmit_users set_error handleUpdate handleCreate u) = requests u
          \<and> item_list (handleSubmit_users set_error handleUpdate handleCreate u) = item_list u
          \<and> formData (handleSubmit_users set_error handleUpdate handleCreate u) = formData u)
       \<and> (whitespace_only (title (formData p)) \<or> whitespace_only (body (formData p)) \<longrightarrow>
            Posts_handleSubmit net p = p\<lparr>error := Some ''Please fill in all fields''\<rparr>
          \<and> requests (Posts_handleSubmit net p) = requests p
          \<and> item_list (Posts_handleSubmit net p) = item_list p
          \<and> formData (Posts_handleSubmit net p) = formData p)"
  by (simp add: handleSubmit_posts_def handleSubmit_users_def Posts_handleSubmit_def
      trim_falsy_iff set_error_def)

theorem blank_required_field_is_rejected_witness:
  "whitespace_only (title (formData (idle [mk_post (Some 1) ''old'' ''x''] (mk_post None ''  '' ''text''))))
   \<and> Posts_handleSubmit (answers (Response 201 (Inr (mk_post (Some 101) ''  '' ''text''))))
        (idle [mk_post (Some 1) ''old'' ''x''] (mk_post None ''  '' ''text''))
      = (idle [mk_post (Some 1) ''old'' ''x''] (mk_post None ''  '' ''text''))
          \<lparr>error := Some ''Please fill in all fields''\<rparr>
   \<and> whitespace_only (email (formData (idle [mk_user (Some 1) ''A''] (empty_user\<lparr>name := js ''C''\<rparr>))))
   \<and> handleSubmit_users set_error
        (createUpdateHandler ''/users'' set_items set_error set_formData [mk_user (Some 1) ''A'']
           empty_user ''user'' (answers (Response 200 (Inr (mk_user (Some 1) ''C'')))))
        (createCreateHandler ''/users'' set_items set_error set_formData [mk_user (Some 1) ''A'']
           empty_user ''user'' (answers (Response 201 (Inr (mk_user (Some 11) ''C'')))))
        (idle [mk_user (Some 1) ''A''] (empty_user\<lparr>name := js ''C''\<rparr>))
      = (idle [mk_user (Some 1) ''A''] (empty_user\<lparr>name := js ''C''\<rparr>))
          \<lparr>error := Some ''Please fill in all fields''\<rparr>"
  using blank_required_field_is_rejected
    [where p = "idle [mk_post (Some 1) ''old'' ''x''] (mk_post None ''  '' ''text'')"
       and net = "answers (Response 201 (Inr (mk_post (Some 101) ''  '' ''text'')))"
       and u = "idle [mk_user (Some 1) ''A''] (empty_user\<lparr>name := js ''C''\<rparr>)"
       and setError' = set_error
       and handleUpdate = "createUpdateHandler ''/users'' set_items set_error set_formData
           [mk_user (Some 1) ''A''] empty_user ''user''
           (answers (Response 200 (Inr (mk_user (Some 1) ''C''))))"
       and handleCreate = "createCreateHandler ''/users'' set_items set_error set_formData
           [mk_user (Some 1) ''A''] empty_user ''user''
           (answers (Response 201 (Inr (mk_user (Some 11) ''C''))))"
       and w = "idle [mk_post (Some 1) ''old'' ''x''] (mk_post None ''  '' ''text'')"
       and setError = set_error
       and handleUpdatePost' = "handleUpdatePost (answers (Response 201 (Inr (mk_post (Some 101) ''  '' ''text''))))"
       and handleCreatePost' = "handleCreatePost (answers (Response 201 (Inr (mk_post (Some 101) ''  '' ''text''))))"]
  by (simp add: whitespace_only_def isWhiteSpace_def idle_def mk_post_def empty_user_def js_def
      set_error_def)

section \<open>Update of an identifier the list does not hold\<close>

text \<open>
  Claim C9. For every update submitted with a non-zero identifier that no element of the
  local list carries, a successful server call leaves the local list entirely unchanged,
  while the form draft is still reset to the empty template and no error is recorded.
\<close>

theorem update_of_unknown_identifier_keeps_list:
  assumes "id_opt itemData = Some n" and "n \<noteq> 0"
    and "\<forall>item\<in>set (item_list w). id_opt item \<noteq> Some n"
    and "net (PUT baseUrl n itemData) = Resolved r" and "ok r" and "json r = Inr savedItem"
  shows "item_list (createUpdateHandler baseUrl set_items set_error set_formData (item_list w)
                      clearFormData entityName net itemData w) = item_list w
       \<and> formData (createUpdateHandler baseUrl set_items set_error set_formData (item_list w)
                      clearFormData entityName net itemData w) = clearFormData
       \<and> error (createUpdateHandler baseUrl set_items set_error set_formData (item_list w)
                      clearFormData entityName net itemData w) = None"
proof -
  have t: "truthy (id_opt itemData)"
    using assms(1,2) by (simp add: truthy_def)
  have j: "response_json (net (PUT baseUrl (the (id_opt itemData)) itemData)) = Inr savedItem"
    using assms by (simp add: response_json_ok)
  have "map (\<lambda>item. if id_opt item = id_opt itemData then savedItem else item) (item_list w)
          = item_list w"
    using assms(1,3) by (simp add: map_replace_none)
  with t j show ?thesis
    by (simp add: createUpdateHandler_success)
qed

theorem update_of_unknown_identifier_keeps_list_witness:
  "id_opt (mk_user (Some 7) ''Z'') = Some 7 \<and> (7::int) \<noteq> 0
   \<and> list_all (\<lambda>item. id_opt item \<noteq> Some 7)
        (item_list (idle [mk_user (Some 1) ''A'', mk_user (Some 3) ''B''] (mk_user (Some 7) ''Z'')))
   \<and> answers (Response 200 (Inr (mk_user (Some 7) ''Z''))) (PUT ''/users'' 7 (mk_user (Some 7) ''Z''))
       = Resolved (Response 200 (Inr (mk_user (Some 7) ''Z'')))
   \<and> ok (Response 200 (Inr (mk_user (Some 7) ''Z'')))
   \<and> createUpdateHandler ''/users'' set_items set_error set_formData
        [mk_user (Some 1) ''A'', mk_user (Some 3) ''B''] empty_user ''user''
        (answers (Response 200 (Inr (mk_user (Some 7) ''Z'')))) (mk_user (Some 7) ''Z'')
        (idle [mk_user (Some 1) ''A'', mk_user (Some 3) ''B''] (mk_user (Some 7) ''Z''))
      = (idle [mk_user (Some 1) ''A'', mk_user (Some 3) ''B''] empty_user)
          \<lparr>requests := [PUT ''/users'' 7 (mk_user (Some 7) ''Z'')],
           rendered := [shown (idle [mk_user (Some 1) ''A'', mk_user (Some 3) ''B'']
                          (mk_user (Some 7) ''Z''))]\<rparr>"
  using update_of_unknown_identifier_keeps_list
    [of "mk_user (Some 7) ''Z''" 7 "idle [mk_user (Some 1) ''A'', mk_user (Some 3) ''B'']
          (mk_user (Some 7) ''Z'')" "answers (Response 200 (Inr (mk_user (Some 7) ''Z'')))"
        "''/users''" "Response 200 (Inr (mk_user (Some 7) ''Z''))" "mk_user (Some 7) ''Z''"
        empty_user "''user''"]
  by (simp add: createUpdateHandler_def fetch_def shown_def response_json_def response_ok_def answers_def
      ok_def idle_def mk_user_def truthy_def react_setters)

section \<open>Dispatch on the draft's identifier\<close>

text \<open>
  Claim C10 as worded fails at two inputs. On a list whose only identifier is -5, the create
  handler synthesizes the identifier -4, which is below 1. And a draft without identifier
  whose title is empty does not reach the dispatch: the submit handler issues no request,
  while the create operation on the same draft issues one.
\<close>

theorem submit_dispatch_counterexample:
  "id_opt (last (item_list
     (createCreateHandler ''/users'' set_items set_error set_formData
        [mk_user (Some (- 5)) ''A''] empty_user ''user''
        (answers (Response 201 (Inr (mk_user (Some 11) ''C'')))) (mk_user None ''C'')
        (idle [mk_user (Some (- 5)) ''A''] (mk_user None ''C'')))))
     = Some (- 4)
   \<and> id_opt (formData (idle [mk_post (Some 1) ''old'' ''x''] (mk_post None '''' ''text''))) = None
   \<and> requests (Posts_handleSubmit (answers (Response 201 (Inr (mk_post (Some 101) '''' ''text''))))
        (idle [mk_post (Some 1) ''old'' ''x''] (mk_post None '''' ''text''))) = []
   \<and> requests (handleCreatePost (answers (Response 201 (Inr (mk_post (Some 101) '''' ''text''))))
        (mk_post None '''' ''text'')
        (idle [mk_post (Some 1) ''old'' ''x''] (mk_post None '''' ''text'')))
       = [POST baseUrl_posts (mk_post None '''' ''text'')]"
  by (simp add: createCreateHandler_def fetch_def shown_def response_json_def response_ok_def answers_def
      ok_def idle_def mk_user_def mk_post_def react_setters Math_max_def or_else_def js_add_one_safe js_add_at_2_53 safe_integer_def
      Posts_handleSubmit_def handleSubmit_posts_def handleCreatePost_def trim_def
      falsy_string_def js_def)

text \<open>
  Claim C10, amended. For every form draft that passes the validation of its required
  fields, the submit handler dispatches on the truthiness of the draft's identifier: if the
  id field is undefined or 0, submission is the create operation on the draft, and it is
  the update operation if the id field is a non-zero number. The create handler's maximum
  counts a list element without identifier as identifier 0, and the identifier it
  synthesizes is at least 1 exactly when the list is empty or holds an element whose
  identifier is missing or not negative.
\<close>

theorem submit_dispatches_on_identifier:
  shows "(\<not> whitespace_only (title (formData w)) \<and> \<not> whitespace_only (body (formData w)) \<longrightarrow>
            (id_opt (formData w) = None \<or> id_opt (formData w) = Some 0 \<longrightarrow>
               handleSubmit_posts setError handleUpdatePost' handleCreatePost' w
                 = handleCreatePost' (formData w) w)
          \<and> ((\<exists>n. id_opt (formData w) = Some n \<and> n \<noteq> 0) \<longrightarrow>
               handleSubmit_posts setError handleUpdatePost' handleCreatePost' w
                 = handleUpdatePost' (formData w) w))
       \<and> (\<not> whitespace_only (name (formData u)) \<and> \<not> whitespace_only (email (formData u)) \<longrightarrow>
            (id_opt (formData u) = None \<or> id_opt (formData u) = Some 0 \<longrightarrow>
               handleSubmit_users setError' handleUpdate handleCreate u
                 = handleCreate (formData u) u)
          \<and> ((\<exists>n. id_opt (formData u) = Some n \<and> n \<noteq> 0) \<longrightarrow>
               handleSubmit_users setError' handleUpdate handleCreate u
                 = handleUpdate (formData u) u))
       \<and> (id_opt item = None \<longrightarrow> or_else (id_opt item) 0 = 0)
       \<and> (net (POST baseUrl itemData) = Resolved r \<and> ok r \<and> json r = Inr newItem \<longrightarrow>
            (\<exists>k. id_opt (last (item_list
                    (createCreateHandler baseUrl set_items set_error set_formData (item_list p)
                       clearFormData entityName net itemData p))) = Some k
                \<and> (1 \<le> k \<longleftrightarrow>
                     item_list p = [] \<or> (\<exists>item\<in>set (item_list p). 0 \<le> identifier_or_zero item))))"
proof -
  have posts: "(id_opt (formData w) = None \<or> id_opt (formData w) = Some 0 \<longrightarrow>
               handleSubmit_posts setError handleUpdatePost' handleCreatePost' w
                 = handleCreatePost' (formData w) w)
          \<and> ((\<exists>n. id_opt (formData w) = Some n \<and> n \<noteq> 0) \<longrightarrow>
               handleSubmit_posts setError handleUpdatePost' handleCreatePost' w
                 = handleUpdatePost' (formData w) w)"
    if "\<not> whitespace_only (title (formData w))" and "\<not> whitespace_only (body (formData w))"
    using that by (auto simp: handleSubmit_posts_def trim_falsy_iff truthy_def)
  have users: "(id_opt (formData u) = None \<or> id_opt (formData u) = Some 0 \<longrightarrow>
               handleSubmit_users setError' handleUpdate handleCreate u
                 = handleCreate (formData u) u)
          \<and> ((\<exists>n. id_opt (formData u) = Some n \<and> n \<noteq> 0) \<longrightarrow>
               handleSubmit_users setError' handleUpdate handleCreate u
                 = handleUpdate (formData u) u)"
    if "\<not> whitespace_only (name (formData u))" and "\<not> whitespace_only (email (formData u))"
    using that by (auto simp: handleSubmit_users_def trim_falsy_iff truthy_def)
  have missing: "id_opt item = None \<longrightarrow> or_else (id_opt item) 0 = 0"
    by (simp add: or_else_def)
  have create: "\<exists>k. id_opt (last (item_list
                    (createCreateHandler baseUrl set_items set_error set_formData (item_list p)
                       clearFormData entityName net itemData p))) = Some k
                \<and> (1 \<le> k \<longleftrightarrow>
                     item_list p = [] \<or> (\<exists>item\<in>set (item_list p). 0 \<le> identifier_or_zero item))"
    if "net (POST baseUrl itemData) = Resolved r" and "ok r" and "json r = Inr newItem"
  proof -
    have "response_json (net (POST baseUrl itemData)) = Inr newItem"
      using that by (simp add: response_json_ok)
    then show ?thesis
      by (simp add: createCreateHandler_success js_add_one_ge_one largest_identifier_nonneg)
  qed
  from posts users missing create show ?thesis by blast
qed

theorem submit_dispatches_on_identifier_witness:
  "\<not> whitespace_only (title (formData (idle [mk_post (Some 1) ''old'' ''x''] (mk_post None ''T'' ''B''))))
   \<and> \<not> whitespace_only (body (formData (idle [mk_post (Some 1) ''old'' ''x''] (mk_post None ''T'' ''B''))))
   \<and> id_opt (formData (idle [mk_post (Some 1) ''old'' ''x''] (mk_post None ''T'' ''B''))) = None
   \<and> Posts_handleSubmit (answers (Response 201 (Inr (mk_post (Some 101) ''T'' ''B''))))
        (idle [mk_post (Some 1) ''old'' ''x''] (mk_post None ''T'' ''B''))
      = handleCreatePost (answers (Response 201 (Inr (mk_post (Some 101) ''T'' ''B''))))
          (mk_post None ''T'' ''B'') (idle [mk_post (Some 1) ''old'' ''x''] (mk_post None ''T'' ''B''))
   \<and> \<not> whitespace_only (name (formData (idle users_AB (mk_user (Some 3) ''B2''))))
   \<and> \<not> whitespace_only (email (formData (idle users_AB (mk_user (Some 3) ''B2''))))
   \<and> (\<exists>n. id_opt (formData (idle users_AB (mk_user (Some 3) ''B2''))) = Some n \<and> n \<noteq> 0)
   \<and> handleSubmit_users set_error
        (createUpdateHandler ''/users'' set_items set_error set_formData users_AB empty_user
           ''user'' (answers (Response 200 (Inr (mk_user (Some 3) ''B2'')))))
        (createCreateHandler ''/users'' set_items set_error set_formData users_AB empty_user
           ''user'' (answers (Response 201 (Inr (mk_user (Some 11) ''B2'')))))
        (idle users_AB (mk_user (Some 3) ''B2''))
      = createUpdateHandler ''/users'' set_items set_error set_formData users_AB empty_user
          ''user'' (answers (Response 200 (Inr (mk_user (Some 3) ''B2''))))
          (mk_user (Some 3) ''B2'') (idle users_AB (mk_user (Some 3) ''B2''))
   \<and> id_opt (mk_user None ''B'') = None \<and> or_else (id_opt (mk_user None ''B'')) 0 = 0
   \<and> answers (Response 201 (Inr (mk_user (Some 11) ''C''))) (POST ''/users'' (mk_user None ''C''))
       = Resolved (Response 201 (Inr (mk_user (Some 11) ''C'')))
   \<and> ok (Response 201 (Inr (mk_user (Some 11) ''C'')))
   \<and> id_opt (last (item_list
        (createCreateHandler ''/users'' set_items set_error set_formData users_AB empty_user
           ''user'' (answers (Response 201 (Inr (mk_user (Some 11) ''C'')))) (mk_user None ''C'')
           (idle users_AB (mk_user None ''C''))))) = Some 4"
proof -
  note dispatch = submit_dispatches_on_identifier
  have a: "Posts_handleSubmit (answers (Response 201 (Inr (mk_post (Some 101) ''T'' ''B''))))
        (idle [mk_post (Some 1) ''old'' ''x''] (mk_post None ''T'' ''B''))
      = handleCreatePost (answers (Response 201 (Inr (mk_post (Some 101) ''T'' ''B''))))
          (mk_post None ''T'' ''B'') (idle [mk_post (Some 1) ''old'' ''x''] (mk_post None ''T'' ''B''))"
    using dispatch
      [where w = "idle [mk_post (Some 1) ''old'' ''x''] (mk_post None ''T'' ''B'')"
         and setError = set_error
         and handleUpdatePost' = "handleUpdatePost (answers (Response 201 (Inr (mk_post (Some 101) ''T'' ''B''))))"
         and handleCreatePost' = "handleCreatePost (answers (Response 201 (Inr (mk_post (Some 101) ''T'' ''B''))))",
       THEN conjunct1]
    by (simp add: Posts_handleSubmit_def whitespace_only_def isWhiteSpace_def idle_def
        mk_post_def js_def)
  have b: "handleSubmit_users set_error
        (createUpdateHandler ''/users'' set_items set_error set_formData users_AB empty_user
           ''user'' (answers (Response 200 (Inr (mk_user (Some 3) ''B2'')))))
        (createCreateHandler ''/users'' set_items set_error set_formData users_AB empty_user
           ''user'' (answers (Response 201 (Inr (mk_user (Some 11) ''B2'')))))
        (idle users_AB (mk_user (Some 3) ''B2''))
      = createUpdateHandler ''/users'' set_items set_error set_formData users_AB empty_user
          ''user'' (answers (Response 200 (Inr (mk_user (Some 3) ''B2''))))
          (mk_user (Some 3) ''B2'') (idle users_AB (mk_user (Some 3) ''B2''))"
    using dispatch
      [where u = "idle users_AB (mk_user (Some 3) ''B2'')" and setError' = set_error
         and handleUpdate = "createUpdateHandler ''/users'' set_items set_error set_formData
           users_AB empty_user ''user'' (answers (Response 200 (Inr (mk_user (Some 3) ''B2''))))"
         and handleCreate = "createCreateHandler ''/users'' set_items set_error set_formData
           users_AB empty_user ''user'' (answers (Response 201 (Inr (mk_user (Some 11) ''B2''))))",
       THEN conjunct2, THEN conjunct1]
    by (simp add: whitespace_only_def isWhiteSpace_def idle_def mk_user_def js_def)
  have c: "or_else (id_opt (mk_user None ''B'')) 0 = 0"
    using dispatch [where item = "mk_user None ''B''", THEN conjunct2, THEN conjunct2,
        THEN conjunct1]
    by (simp add: mk_user_def)
  have d: "\<exists>k. id_opt (last (item_list
        (createCreateHandler ''/users'' set_items set_error set_formData users_AB empty_user
           ''user'' (answers (Response 201 (Inr (mk_user (Some 11) ''C'')))) (mk_user None ''C'')
           (idle users_AB (mk_user None ''C''))))) = Some k \<and> 1 \<le> k"
    using dispatch
      [where net = "answers (Response 201 (Inr (mk_user (Some 11) ''C'')))"
         and baseUrl = "''/users''" and itemData = "mk_user None ''C''"
         and r = "Response 201 (Inr (mk_user (Some 11) ''C''))"
         and newItem = "mk_user (Some 11) ''C''"
         and p = "idle users_AB (mk_user None ''C'')"
         and clearFormData = empty_user and entityName = "''user''",
       THEN conjunct2, THEN conjunct2, THEN conjunct2]
    by (simp add: answers_def ok_def idle_def users_AB_def mk_user_def identifier_or_zero_def)
  have e: "id_opt (last (item_list
        (createCreateHandler ''/users'' set_items set_error set_formData users_AB empty_user
           ''user'' (answers (Response 201 (Inr (mk_user (Some 11) ''C'')))) (mk_user None ''C'')
           (idle users_AB (mk_user None ''C''))))) = Some 4"
    by (simp add: createCreateHandler_def fetch_def shown_def response_json_def response_ok_def
        answers_def ok_def idle_def users_AB_def mk_user_def react_setters Math_max_def
        or_else_def js_add_one_safe js_add_at_2_53 safe_integer_def)
  from a b c d e show ?thesis
    by (simp add: whitespace_only_def isWhiteSpace_def idle_def mk_post_def mk_user_def js_def
        answers_def ok_def)
qed

end
